theory Spec2Isabelle
  imports Main
begin

section \<open>Data model\<close>

text \<open>
  The pages declare two shapes of job. The jobs list (\<^verbatim>\<open>jobs/page.tsx\<close>) and the
  edit-job page keep the tasks of a job as plain strings (\<^verbatim>\<open>tasks: string[]\<close>); the
  task list page and the edit-task page keep them as \<^verbatim>\<open>Task\<close> objects. One record,
  polymorphic in the task type, covers both. The source's field \<^verbatim>\<open>id\<close> is written
  \<open>task_id\<close> and \<open>job_id\<close> (HOL has a constant \<open>id\<close>), and the field \<^verbatim>\<open>notes\<close> is
  \<open>task_notes\<close> and \<open>job_notes\<close> (the word is a keyword of Isabelle).
\<close>

record Task =
  task_id :: string
  title :: string
  description :: string
  completed :: bool
  dueDate :: string
  task_notes :: string

record 't Job =
  job_id :: string
  jobName :: string
  clientName :: string
  status :: string
  gateCode :: string
  job_notes :: string
  tasks :: "'t list"

section \<open>Sample data of the pages\<close>

text \<open>
  Each page closes over an array literal of its own. \<open>jobs\<close> is the literal of the jobs
  list, \<open>allJobs\<close> the one of the edit-job page (the same three jobs), and
  \<open>initialJobs\<close> the one that the task list page and the edit-task page each declare
  (the same two jobs in both files). No statement of the program assigns to these
  arrays or to an object in them: the handlers build new objects with the spread
  operator and new arrays with \<^verbatim>\<open>map\<close>.
\<close>

definition jobs :: "string Job list" where
  "jobs =
    [\<lparr>job_id = ''1'', jobName = ''Lot 3'', clientName = ''Cindy McKinny'',
      status = ''In Progress'', gateCode = ''4729'', job_notes = '''',
      tasks = [''Excavation'', ''Steel'', ''Plumbing'']\<rparr>,
     \<lparr>job_id = ''2'', jobName = ''Sage Thrasher'', clientName = ''X'',
      status = ''Scheduled'', gateCode = '''', job_notes = '''',
      tasks = [''Demo'', ''Steel'', ''Plumbing'']\<rparr>,
     \<lparr>job_id = ''3'', jobName = ''Emergency Repair - Wilson Pool'', clientName = ''Mike Wilson'',
      status = ''Overdue'', gateCode = '''', job_notes = '''',
      tasks = [''Replace pump'', ''Check electrical connections'', ''Test system'']\<rparr>]"

definition allJobs :: "string Job list" where
  "allJobs =
    [\<lparr>job_id = ''1'', jobName = ''Lot 3'', clientName = ''Cindy McKinny'',
      status = ''In Progress'', gateCode = ''4729'', job_notes = '''',
      tasks = [''Excavation'', ''Steel'', ''Plumbing'']\<rparr>,
     \<lparr>job_id = ''2'', jobName = ''Sage Thrasher'', clientName = ''X'',
      status = ''Scheduled'', gateCode = '''', job_notes = '''',
      tasks = [''Demo'', ''Steel'', ''Plumbing'']\<rparr>,
     \<lparr>job_id = ''3'', jobName = ''Emergency Repair - Wilson Pool'', clientName = ''Mike Wilson'',
      status = ''Overdue'', gateCode = '''', job_notes = '''',
      tasks = [''Replace pump'', ''Check electrical connections'', ''Test system'']\<rparr>]"

definition initialJobs :: "Task Job list" where
  "initialJobs =
    [\<lparr>job_id = ''1'', jobName = ''Lot 3'', clientName = ''Cindy McKinny'',
      status = ''In Progress'', gateCode = ''4729'', job_notes = '''',
      tasks =
       [\<lparr>task_id = ''1-1'', title = ''Excavation'',
         description = ''Test pH, chlorine, and alkalinity levels'', completed = True,
         dueDate = ''2025-06-04'', task_notes = ''''\<rparr>,
        \<lparr>task_id = ''1-2'', title = ''Steel'', description = ''Jaime Steel'',
         completed = False, dueDate = ''2025-06-16'', task_notes = ''''\<rparr>,
        \<lparr>task_id = ''1-3'', title = ''Plumbing'', description = ''Abraham Plumbing'',
         completed = False, dueDate = ''2025-06-21'', task_notes = ''''\<rparr>]\<rparr>,
     \<lparr>job_id = ''2'', jobName = ''Sage Thrasher'', clientName = ''X'',
      status = ''Scheduled'', gateCode = '''', job_notes = '''',
      tasks =
       [\<lparr>task_id = ''2-1'', title = ''Demo'', description = ''demo pre-existing pool'',
         completed = False, dueDate = ''2025-06-20'',
         task_notes = ''Check soil/ground conditions''\<rparr>,
        \<lparr>task_id = ''2-2'', title = ''Steel'', description = ''Haime Steel'',
         completed = False, dueDate = ''2025-07-01'', task_notes = ''''\<rparr>,
        \<lparr>task_id = ''2-3'', title = ''Plumbing'', description = ''Abraham Plumbing'',
         completed = False, dueDate = ''2025-07-22'', task_notes = ''''\<rparr>]\<rparr>]"

section \<open>State and effects of a page\<close>

text \<open>
  A page is a function component: its state is what \<^verbatim>\<open>useState\<close> holds, and what it does
  beyond updating that state is a call of \<^verbatim>\<open>router.push\<close>, \<^verbatim>\<open>console.error\<close>,
  \<^verbatim>\<open>console.log\<close> or \<^verbatim>\<open>alert\<close>. The model passes the state explicitly and records
  each such call, in order, in a field of it. The entity a \<^verbatim>\<open>console.log\<close> prints is
  kept with the entry.
\<close>

datatype 'a console_entry =
  ConsoleError string "string list"
  | ConsoleLog string "'a option"

record 'a page =
  loading :: bool
  pushed :: "string list"
  console :: "'a console_entry list"
  alerts :: "string list"

record 't job_page = "('t Job) page" +
  job :: "'t Job option"

record task_page = "Task page" +
  task :: "Task option"
  parentJob :: "Task Job option"

text \<open>What a page shows: one of its fixed messages, or its content.\<close>

datatype 'a view = Message string | Content 'a

section \<open>The edit-job page\<close>

text \<open>\<^verbatim>\<open>useState<Job | null>(null)\<close> and \<^verbatim>\<open>useState(true)\<close>.\<close>

definition EditJob_init :: "string job_page" where
  "EditJob_init =
     \<lparr>loading = True, pushed = [], console = [], alerts = [], job = None\<rparr>"

text \<open>
  The effect that runs when the page is entered. The array the page closes over is the
  parameter \<open>store\<close> (the page as shipped passes \<open>allJobs\<close>). \<open>i\<close> is the third
  segment of the path; a missing segment is \<^verbatim>\<open>undefined\<close>, which the test
  \<^verbatim>\<open>if (id)\<close> treats as it treats the empty string, so both are \<open>''''\<close> here.
\<close>

definition EditJob_useEffect ::
    "string Job list \<Rightarrow> string \<Rightarrow> string job_page \<Rightarrow> string job_page" where
  "EditJob_useEffect store i st =
     (if i \<noteq> [] then
        (case find (\<lambda>j. job_id j = i) store of
           Some foundJob \<Rightarrow> st\<lparr>job := Some foundJob\<rparr>
         | None \<Rightarrow>
             st\<lparr>console := console st @ [ConsoleError ''Job not found for ID:'' [i]],
                pushed := pushed st @ [''/404'']\<rparr>)
        \<lparr>loading := False\<rparr>
      else st\<lparr>loading := False\<rparr>)"

text \<open>
  The form has five controls wired to \<^verbatim>\<open>handleChange\<close>; the \<^verbatim>\<open>name\<close> of the event's
  target is the name of one of them, and its \<^verbatim>\<open>value\<close> is a string.
\<close>

datatype job_input = JobNameInput | ClientNameInput | GateCodeInput | NotesInput | StatusInput

text \<open>\<^verbatim>\<open>{...prevJob, [name]: value}\<close>: a copy of the job with the one property replaced.\<close>

fun assignJob :: "job_input \<Rightarrow> string \<Rightarrow> 't Job \<Rightarrow> 't Job" where
  "assignJob JobNameInput v j = j\<lparr>jobName := v\<rparr>"
| "assignJob ClientNameInput v j = j\<lparr>clientName := v\<rparr>"
| "assignJob GateCodeInput v j = j\<lparr>gateCode := v\<rparr>"
| "assignJob NotesInput v j = j\<lparr>job_notes := v\<rparr>"
| "assignJob StatusInput v j = j\<lparr>status := v\<rparr>"

text \<open>Reading the property a control is bound to (\<^verbatim>\<open>value={job.jobName}\<close> and so on).\<close>

fun readJob :: "job_input \<Rightarrow> 't Job \<Rightarrow> string" where
  "readJob JobNameInput j = jobName j"
| "readJob ClientNameInput j = clientName j"
| "readJob GateCodeInput j = gateCode j"
| "readJob NotesInput j = job_notes j"
| "readJob StatusInput j = status j"

definition EditJob_handleChange ::
    "job_input \<Rightarrow> string \<Rightarrow> string job_page \<Rightarrow> string job_page" where
  "EditJob_handleChange n v st =
     st\<lparr>job := (case job st of
                  None \<Rightarrow> None
                | Some prevJob \<Rightarrow> Some (assignJob n v prevJob))\<rparr>"

definition EditJob_handleSubmit :: "string job_page \<Rightarrow> string job_page" where
  "EditJob_handleSubmit st =
     st\<lparr>console := console st @ [ConsoleLog ''Saving changes for job:'' (job st)],
        alerts := alerts st @ [''Job updated! (Simulated save)''],
        pushed := pushed st @ [''/jobs'']\<rparr>"

definition EditJob_render :: "string job_page \<Rightarrow> string Job view" where
  "EditJob_render st =
     (if loading st then Message ''Loading job details...''
      else case job st of
             None \<Rightarrow> Message ''Job not found. Please check the URL.''
           | Some j \<Rightarrow> Content j)"

text \<open>
  One visit of the page: the effect runs on the initial state; when the form is shown,
  the user changes controls (\<open>changes\<close>, in order) and presses the submit button. The
  form, and so its handlers, exist only in the view that shows the job.
\<close>

definition EditJob_visit ::
    "string Job list \<Rightarrow> string \<Rightarrow> (job_input \<times> string) list \<Rightarrow> string job_page" where
  "EditJob_visit store i changes =
     (let st = EditJob_useEffect store i EditJob_init in
      case EditJob_render st of
        Message _ \<Rightarrow> st
      | Content _ \<Rightarrow>
          EditJob_handleSubmit (foldl (\<lambda>s (n, v). EditJob_handleChange n v s) st changes))"

section \<open>The edit-task page\<close>

definition EditTask_init :: task_page where
  "EditTask_init =
     \<lparr>loading = True, pushed = [], console = [], alerts = [], task = None, parentJob = None\<rparr>"

text \<open>
  The effect of the edit-task page, over the array \<open>store\<close> it closes over
  (\<open>initialJobs\<close> in the page as shipped). \<open>jobId\<close> and \<open>taskId\<close> are the third and the
  fifth segment of the path, \<open>''''\<close> when missing.
\<close>

definition EditTask_useEffect ::
    "Task Job list \<Rightarrow> string \<Rightarrow> string \<Rightarrow> task_page \<Rightarrow> task_page" where
  "EditTask_useEffect store jobId taskId st =
     (if jobId \<noteq> [] \<and> taskId \<noteq> [] then
        (case find (\<lambda>j. job_id j = jobId) store of
           Some foundJob \<Rightarrow>
             (let st1 = st\<lparr>parentJob := Some foundJob\<rparr> in
              case find (\<lambda>t. task_id t = taskId) (tasks foundJob) of
                Some foundTask \<Rightarrow> st1\<lparr>task := Some foundTask\<rparr>
              | None \<Rightarrow>
                  st1\<lparr>console := console st1 @ [ConsoleError ''Task not found!'' []],
                      pushed := pushed st1 @ [''/404'']\<rparr>)
         | None \<Rightarrow>
             st\<lparr>console := console st @ [ConsoleError ''Job not found!'' []],
                pushed := pushed st @ [''/404'']\<rparr>)
        \<lparr>loading := False\<rparr>
      else st\<lparr>loading := False\<rparr>)"

text \<open>
  The form's controls. Four of them are text controls whose event carries a string
  \<^verbatim>\<open>value\<close>; the fifth is the checkbox, for which the handler takes \<^verbatim>\<open>checked\<close>
  (\<^verbatim>\<open>type === 'checkbox' ? checked : value\<close>).
\<close>

datatype task_change =
  TitleInput string
  | DescriptionInput string
  | DueDateInput string
  | TaskNotesInput string
  | CompletedInput bool

fun assignTask :: "task_change \<Rightarrow> Task \<Rightarrow> Task" where
  "assignTask (TitleInput v) t = t\<lparr>title := v\<rparr>"
| "assignTask (DescriptionInput v) t = t\<lparr>description := v\<rparr>"
| "assignTask (DueDateInput v) t = t\<lparr>dueDate := v\<rparr>"
| "assignTask (TaskNotesInput v) t = t\<lparr>task_notes := v\<rparr>"
| "assignTask (CompletedInput c) t = t\<lparr>completed := c\<rparr>"

definition EditTask_handleChange :: "task_change \<Rightarrow> task_page \<Rightarrow> task_page" where
  "EditTask_handleChange e st =
     st\<lparr>task := (case task st of
                   None \<Rightarrow> None
                 | Some prevTask \<Rightarrow> Some (assignTask e prevTask))\<rparr>"

definition EditTask_handleSubmit :: "task_page \<Rightarrow> task_page" where
  "EditTask_handleSubmit st =
     (let st1 = st\<lparr>console := console st @ [ConsoleLog ''Saving changes for task:'' (task st)],
                   alerts := alerts st @ [''Task updated! (Simulated save)'']\<rparr>
      in case parentJob st1 of
           Some pj \<Rightarrow> st1\<lparr>pushed := pushed st1 @ [''/jobs/'' @ job_id pj @ ''/tasks'']\<rparr>
         | None \<Rightarrow> st1\<lparr>pushed := pushed st1 @ [''/jobs'']\<rparr>)"

definition EditTask_render :: "task_page \<Rightarrow> (Task \<times> Task Job) view" where
  "EditTask_render st =
     (if loading st then Message ''Loading task details...''
      else case (task st, parentJob st) of
             (Some t, Some pj) \<Rightarrow> Content (t, pj)
           | _ \<Rightarrow> Message ''Task not found. Please check the URL.'')"

text \<open>One visit of the edit-task page, as \<open>EditJob_visit\<close> is one of the edit-job page.\<close>

definition EditTask_visit ::
    "Task Job list \<Rightarrow> string \<Rightarrow> string \<Rightarrow> task_change list \<Rightarrow> task_page" where
  "EditTask_visit store jobId taskId changes =
     (let st = EditTask_useEffect store jobId taskId EditTask_init in
      case EditTask_render st of
        Message _ \<Rightarrow> st
      | Content _ \<Rightarrow> EditTask_handleSubmit (foldl (\<lambda>s e. EditTask_handleChange e s) st changes))"

section \<open>The task list page\<close>

definition JobTasks_init :: "Task job_page" where
  "JobTasks_init =
     \<lparr>loading = True, pushed = [], console = [], alerts = [], job = None\<rparr>"

text \<open>
  The effect of the task list page. Unlike the two edit pages it has no \<^verbatim>\<open>else\<close>
  branch: with an empty \<open>jobId\<close> the page keeps loading.
\<close>

definition JobTasks_useEffect ::
    "Task Job list \<Rightarrow> string \<Rightarrow> Task job_page \<Rightarrow> Task job_page" where
  "JobTasks_useEffect store jobId st =
     (if jobId \<noteq> [] then
        (case find (\<lambda>j. job_id j = jobId) store of
           Some foundJob \<Rightarrow> st\<lparr>job := Some foundJob\<rparr>
         | None \<Rightarrow>
             st\<lparr>console := console st @ [ConsoleError ''Job not found!'' []],
                pushed := pushed st @ [''/404'']\<rparr>)
        \<lparr>loading := False\<rparr>
      else st)"

text \<open>The checkbox handler of the task list: flips \<^verbatim>\<open>completed\<close> of the tasks with the id.\<close>

definition handleTaskCompletionChange :: "string \<Rightarrow> Task job_page \<Rightarrow> Task job_page" where
  "handleTaskCompletionChange taskId st =
     st\<lparr>job := (case job st of
                  None \<Rightarrow> None
                | Some prevJob \<Rightarrow>
                    (let updatedTasks =
                           map (\<lambda>t. if task_id t = taskId
                                     then t\<lparr>completed := \<not> completed t\<rparr>
                                     else t)
                               (tasks prevJob)
                     in Some (prevJob\<lparr>tasks := updatedTasks\<rparr>)))\<rparr>"

definition JobTasks_render :: "Task job_page \<Rightarrow> (Task Job) view" where
  "JobTasks_render st =
     (if loading st then Message ''Loading tasks...''
      else case job st of
             None \<Rightarrow> Message ''Job not found.''
           | Some j \<Rightarrow> Content j)"

section \<open>The statuses the jobs list knows\<close>

text \<open>\<^verbatim>\<open>statusColors\<close> of the jobs list: its keys are the four statuses.\<close>

definition statusColors :: "(string \<times> string) list" where
  "statusColors =
     [(''Scheduled'', ''bg-blue-500''), (''In Progress'', ''bg-yellow-500''),
      (''Completed'', ''bg-green-500''), (''Overdue'', ''bg-red-500'')]"

section \<open>Lookups and changes: auxiliary facts\<close>

lemma find_job_id: "find (\<lambda>j. job_id j = i) js = Some j \<Longrightarrow> job_id j = i \<and> j \<in> set js"
  by (auto simp: find_Some_iff)

lemma find_present: "i \<in> job_id ` set js \<Longrightarrow> \<exists>j. find (\<lambda>j. job_id j = i) js = Some j"
  by (cases "find (\<lambda>j. job_id j = i) js") (auto simp: find_None_iff)

lemma find_absent: "i \<notin> job_id ` set js \<Longrightarrow> find (\<lambda>j. job_id j = i) js = None"
  by (auto simp: find_None_iff)

lemma job_handleChange:
  "job (EditJob_handleChange n v st) = map_option (assignJob n v) (job st)"
  by (cases "job st") (simp_all add: EditJob_handleChange_def)

lemma foldl_handleChange_job:
  "job (foldl (\<lambda>s (n, v). EditJob_handleChange n v s) st changes) =
     map_option (\<lambda>j. foldl (\<lambda>j (n, v). assignJob n v j) j changes) (job st)"
proof (induction changes arbitrary: st)
  case Nil
  show ?case by (cases "job st") simp_all
next
  case (Cons c changes)
  show ?case
    by (cases c; cases "job st") (simp_all add: Cons.IH job_handleChange)
qed

lemma handleChange_more:
  "loading (EditJob_handleChange n v st) = loading st \<and>
   pushed (EditJob_handleChange n v st) = pushed st \<and>
   console (EditJob_handleChange n v st) = console st \<and>
   alerts (EditJob_handleChange n v st) = alerts st"
  by (simp add: EditJob_handleChange_def)

lemma foldl_handleChange_more:
  "loading (foldl (\<lambda>s (n, v). EditJob_handleChange n v s) st changes) = loading st \<and>
   pushed (foldl (\<lambda>s (n, v). EditJob_handleChange n v s) st changes) = pushed st \<and>
   console (foldl (\<lambda>s (n, v). EditJob_handleChange n v s) st changes) = console st \<and>
   alerts (foldl (\<lambda>s (n, v). EditJob_handleChange n v s) st changes) = alerts st"
proof (induction changes arbitrary: st)
  case Nil
  show ?case by simp
next
  case (Cons c changes)
  show ?case by (cases c) (simp add: Cons.IH handleChange_more)
qed

lemma assignJob_frame: "job_id (assignJob n v j) = job_id j \<and> tasks (assignJob n v j) = tasks j"
  by (cases n) auto

lemma readJob_assignJob: "readJob m (assignJob n v j) = (if m = n then v else readJob m j)"
  by (cases n; cases m) auto

lemma foldl_assignJob_frame:
  "job_id (foldl (\<lambda>j (n, v). assignJob n v j) j changes) = job_id j \<and>
   tasks (foldl (\<lambda>j (n, v). assignJob n v j) j changes) = tasks j"
  by (induction changes arbitrary: j) (auto simp: assignJob_frame)

lemma readJob_foldl:
  "readJob m (foldl (\<lambda>j (n, v). assignJob n v j) j changes) =
     (case map_of (rev changes) m of None \<Rightarrow> readJob m j | Some v \<Rightarrow> v)"
  by (induction changes rule: rev_induct) (auto simp: readJob_assignJob split: option.splits)

lemma EditJob_visit_present:
  assumes "i \<noteq> []" and "find (\<lambda>j. job_id j = i) store = Some j"
  shows "EditJob_visit store i changes =
     \<lparr>loading = False, pushed = [''/jobs''],
      console = [ConsoleLog ''Saving changes for job:''
                   (Some (foldl (\<lambda>j (n, v). assignJob n v j) j changes))],
      alerts = [''Job updated! (Simulated save)''],
      job = Some (foldl (\<lambda>j (n, v). assignJob n v j) j changes)\<rparr>"
proof -
  let ?st = "EditJob_useEffect store i EditJob_init"
  let ?f = "foldl (\<lambda>s (n, v). EditJob_handleChange n v s) ?st changes"
  have st: "?st = \<lparr>loading = False, pushed = [], console = [], alerts = [], job = Some j\<rparr>"
    using assms by (simp add: EditJob_useEffect_def EditJob_init_def)
  have r: "EditJob_render ?st = Content j"
    by (simp add: st EditJob_render_def)
  have v: "EditJob_visit store i changes = EditJob_handleSubmit ?f"
    by (simp add: EditJob_visit_def r)
  have f: "job ?f = Some (foldl (\<lambda>j (n, v). assignJob n v j) j changes)"
    "loading ?f = False" "pushed ?f = []" "console ?f = []" "alerts ?f = []"
    by (simp_all add: foldl_handleChange_job foldl_handleChange_more st)
  show ?thesis
    unfolding v by (simp add: EditJob_handleSubmit_def f)
qed

lemma EditJob_useEffect_absent:
  assumes "i \<notin> job_id ` set store"
  shows "EditJob_useEffect store i EditJob_init =
     \<lparr>loading = False, pushed = (if i = [] then [] else [''/404'']),
      console = (if i = [] then [] else [ConsoleError ''Job not found for ID:'' [i]]),
      alerts = [], job = None\<rparr>"
  using find_absent [OF assms]
  by (simp add: EditJob_useEffect_def EditJob_init_def)

lemma find_distinct_job:
  "distinct (map job_id js) \<Longrightarrow> j \<in> set js \<Longrightarrow> find (\<lambda>x. job_id x = job_id j) js = Some j"
  by (induction js) auto

lemma find_task_None: "(find (\<lambda>t. task_id t = k) ts = None) = (k \<notin> task_id ` set ts)"
  by (auto simp: find_None_iff)

lemma find_task_id: "find (\<lambda>t. task_id t = k) ts = Some t \<Longrightarrow> task_id t = k \<and> t \<in> set ts"
  by (auto simp: find_Some_iff)


lemma EditTask_useEffect_cases:
  "EditTask_useEffect store jobId taskId EditTask_init =
     (if jobId = [] \<or> taskId = []
      then \<lparr>loading = False, pushed = [], console = [], alerts = [],
             task = None, parentJob = None\<rparr>
      else case find (\<lambda>j. job_id j = jobId) store of
        None \<Rightarrow> \<lparr>loading = False, pushed = [''/404''],
                  console = [ConsoleError ''Job not found!'' []], alerts = [],
                  task = None, parentJob = None\<rparr>
      | Some j \<Rightarrow>
         (case find (\<lambda>t. task_id t = taskId) (tasks j) of
            None \<Rightarrow> \<lparr>loading = False, pushed = [''/404''],
                      console = [ConsoleError ''Task not found!'' []], alerts = [],
                      task = None, parentJob = Some j\<rparr>
          | Some t \<Rightarrow> \<lparr>loading = False, pushed = [], console = [], alerts = [],
                      task = Some t, parentJob = Some j\<rparr>))"
  by (simp add: EditTask_useEffect_def EditTask_init_def Let_def split: option.splits)

lemma task_handleChange:
  "task (EditTask_handleChange e st) = map_option (assignTask e) (task st)"
  by (cases "task st") (simp_all add: EditTask_handleChange_def)

lemma EditTask_handleChange_more:
  "loading (EditTask_handleChange e st) = loading st \<and>
   pushed (EditTask_handleChange e st) = pushed st \<and>
   console (EditTask_handleChange e st) = console st \<and>
   alerts (EditTask_handleChange e st) = alerts st \<and>
   parentJob (EditTask_handleChange e st) = parentJob st"
  by (simp add: EditTask_handleChange_def)

lemma foldl_EditTask_handleChange_task:
  "task (foldl (\<lambda>s e. EditTask_handleChange e s) st changes) =
     map_option (\<lambda>t. foldl (\<lambda>t e. assignTask e t) t changes) (task st)"
proof (induction changes arbitrary: st)
  case Nil
  show ?case by (cases "task st") simp_all
next
  case (Cons c changes)
  show ?case
    by (cases "task st") (simp_all add: Cons.IH task_handleChange)
qed

lemma foldl_EditTask_handleChange_more:
  "loading (foldl (\<lambda>s e. EditTask_handleChange e s) st changes) = loading st \<and>
   pushed (foldl (\<lambda>s e. EditTask_handleChange e s) st changes) = pushed st \<and>
   console (foldl (\<lambda>s e. EditTask_handleChange e s) st changes) = console st \<and>
   alerts (foldl (\<lambda>s e. EditTask_handleChange e s) st changes) = alerts st \<and>
   parentJob (foldl (\<lambda>s e. EditTask_handleChange e s) st changes) = parentJob st"
proof (induction changes arbitrary: st)
  case Nil
  show ?case by simp
next
  case (Cons c changes)
  show ?case by (simp add: Cons.IH EditTask_handleChange_more)
qed

lemma EditTask_visit_present:
  assumes "jobId \<noteq> []" and "taskId \<noteq> []"
    and "find (\<lambda>j. job_id j = jobId) store = Some pj"
    and "find (\<lambda>t. task_id t = taskId) (tasks pj) = Some t"
  shows "EditTask_visit store jobId taskId changes =
     \<lparr>loading = False, pushed = [''/jobs/'' @ job_id pj @ ''/tasks''],
      console = [ConsoleLog ''Saving changes for task:''
                   (Some (foldl (\<lambda>t e. assignTask e t) t changes))],
      alerts = [''Task updated! (Simulated save)''],
      task = Some (foldl (\<lambda>t e. assignTask e t) t changes),
      parentJob = Some pj\<rparr>"
proof -
  let ?st = "EditTask_useEffect store jobId taskId EditTask_init"
  let ?f = "foldl (\<lambda>s e. EditTask_handleChange e s) ?st changes"
  have st: "?st = \<lparr>loading = False, pushed = [], console = [], alerts = [],
                    task = Some t, parentJob = Some pj\<rparr>"
    using assms by (simp add: EditTask_useEffect_cases)
  have r: "EditTask_render ?st = Content (t, pj)"
    by (simp add: st EditTask_render_def)
  have v: "EditTask_visit store jobId taskId changes = EditTask_handleSubmit ?f"
    by (simp add: EditTask_visit_def r)
  have f: "task ?f = Some (foldl (\<lambda>t e. assignTask e t) t changes)"
    "loading ?f = False" "pushed ?f = []" "console ?f = []" "alerts ?f = []"
    "parentJob ?f = Some pj"
    by (simp_all add: foldl_EditTask_handleChange_task foldl_EditTask_handleChange_more st)
  show ?thesis
    unfolding v by (simp add: EditTask_handleSubmit_def f)
qed


lemma EditJob_useEffect_present:
  assumes "i \<noteq> []" and "find (\<lambda>j. job_id j = i) store = Some j"
  shows "EditJob_useEffect store i EditJob_init =
     \<lparr>loading = False, pushed = [], console = [], alerts = [], job = Some j\<rparr>"
  using assms by (simp add: EditJob_useEffect_def EditJob_init_def)

lemma map_of_rev_changes:
  assumes "distinct (map fst changes)"
  shows "(n, v) \<in> set changes \<Longrightarrow> map_of (rev changes) n = Some v"
    and "n \<notin> fst ` set changes \<Longrightarrow> map_of (rev changes) n = None"
proof -
  have d: "distinct (map fst (rev changes))"
    using assms by (simp add: rev_map [symmetric])
  show "(n, v) \<in> set changes \<Longrightarrow> map_of (rev changes) n = Some v"
    using d by (simp add: map_of_is_SomeI)
  show "n \<notin> fst ` set changes \<Longrightarrow> map_of (rev changes) n = None"
    by (simp add: map_of_eq_None_iff)
qed

section \<open>The claims\<close>

text \<open>
  The specification speaks of a job repository and a task repository. In the program
  their operations are what the pages do:
  \<^item> \<^verbatim>\<open>listJobs\<close> is the array \<open>jobs\<close> that the jobs list renders;
  \<^item> \<^verbatim>\<open>getJob\<close> is the lookup in the effect of the edit-job page
    (\<open>EditJob_useEffect\<close>), and the lookup of the task list page where tasks are
    concerned (\<open>JobTasks_useEffect\<close>); \<^verbatim>\<open>listTasks\<close> is the task list page's job as
    rendered;
  \<^item> \<^verbatim>\<open>updateJob\<close> is a visit of the edit-job page (\<open>EditJob_visit\<close>): lookup, changes
    of controls, submit;
  \<^item> \<^verbatim>\<open>getTask\<close> is the lookup in the effect of the edit-task page
    (\<open>EditTask_useEffect\<close>), and \<^verbatim>\<open>updateTask\<close> a visit of that page
    (\<open>EditTask_visit\<close>);
  \<^item> \<^verbatim>\<open>toggleCompletion\<close> is \<open>handleTaskCompletionChange\<close> on the task list page.

  A page signals that something was not found by holding no entity, showing its
  not-found message, and (when it did look up) logging an error and navigating to
  \<^verbatim>\<open>/404\<close>. A successful update is the alert of the submit handler with the navigation
  back to the list; the entity it logs is the updated entity.
\<close>

subsection \<open>Claim C1\<close>

text \<open>
  Claim C1, as amended. For a job id that is present (and not empty), a visit of the
  edit-job page that changes fields and submits succeeds: the page alerts
  \<^verbatim>\<open>Job updated! (Simulated save)\<close>, navigates to \<^verbatim>\<open>/jobs\<close>, and the job it logs as
  saved, which is also the job it holds, is the job of the array with the changes applied
  in order. Each change shows at once in the page itself: after a change of control \<open>n\<close>
  to \<open>v\<close> the page shows the job with that field equal to \<open>v\<close> and the same id. The
  save is simulated: nothing writes the array, so a later lookup of the same id finds the
  job as the array has it, without the changes.
\<close>

theorem edit_job_simulated_save:
  assumes "i \<noteq> []" and "find (\<lambda>j. job_id j = i) store = Some j"
  shows "job (EditJob_visit store i changes) =
           Some (foldl (\<lambda>j (n, v). assignJob n v j) j changes) \<and>
         console (EditJob_visit store i changes) =
           [ConsoleLog ''Saving changes for job:''
              (Some (foldl (\<lambda>j (n, v). assignJob n v j) j changes))] \<and>
         alerts (EditJob_visit store i changes) = [''Job updated! (Simulated save)''] \<and>
         pushed (EditJob_visit store i changes) = [''/jobs''] \<and>
         EditJob_render (EditJob_handleChange n v (EditJob_useEffect store i EditJob_init)) =
           Content (assignJob n v j) \<and>
         readJob n (assignJob n v j) = v \<and>
         job_id (assignJob n v j) = i \<and>
         job (EditJob_useEffect store i EditJob_init) = Some j"
proof -
  have "job_id j = i" using find_job_id [OF assms(2)] by simp
  then show ?thesis
    by (simp add: EditJob_visit_present [OF assms] EditJob_useEffect_present [OF assms]
        EditJob_render_def EditJob_handleChange_def readJob_assignJob assignJob_frame)
qed

theorem edit_job_simulated_save_witness:
  "''3'' \<noteq> [] \<and>
   map_option status (find (\<lambda>j. job_id j = ''3'') allJobs) = Some ''Overdue'' \<and>
   map_option status (job (EditJob_visit allJobs ''3'' [(StatusInput, ''Completed'')])) =
     Some ''Completed'' \<and>
   alerts (EditJob_visit allJobs ''3'' [(StatusInput, ''Completed'')]) =
     [''Job updated! (Simulated save)''] \<and>
   map_option status (job (EditJob_useEffect allJobs ''3'' EditJob_init)) = Some ''Overdue''"
proof -
  have a: "''3'' \<noteq> []" by simp
  have f: "find (\<lambda>j. job_id j = ''3'') allJobs = Some (allJobs ! 2)"
    by (simp add: allJobs_def)
  have s: "status (allJobs ! 2) = ''Overdue''"
    by (simp add: allJobs_def)
  from edit_job_simulated_save [OF a f, of "[(StatusInput, ''Completed'')]" StatusInput "''Completed''"]
  show ?thesis
    by (simp add: f s)
qed

text \<open>
  Claim C1 as stated fails: after the visit that sets the status of job \<open>''3''\<close> to
  \<open>''Completed''\<close> has succeeded, the edit-job page entered again for \<open>''3''\<close> holds a
  job whose status is \<open>''Overdue''\<close>, and so does the array of the jobs list.
\<close>

theorem update_not_reflected_counterexample:
  "alerts (EditJob_visit allJobs ''3'' [(StatusInput, ''Completed'')]) =
     [''Job updated! (Simulated save)''] \<and>
   pushed (EditJob_visit allJobs ''3'' [(StatusInput, ''Completed'')]) = [''/jobs''] \<and>
   map_option status (job (EditJob_useEffect allJobs ''3'' EditJob_init)) = Some ''Overdue'' \<and>
   map_option status (find (\<lambda>j. job_id j = ''3'') jobs) = Some ''Overdue'' \<and>
   ''Overdue'' \<noteq> ''Completed''"
proof -
  have f: "find (\<lambda>j. job_id j = ''3'') allJobs = Some (allJobs ! 2)"
    by (simp add: allJobs_def)
  have s: "status (allJobs ! 2) = ''Overdue''"
    by (simp add: allJobs_def)
  have g: "map_option status (find (\<lambda>j. job_id j = ''3'') jobs) = Some ''Overdue''"
    by (simp add: jobs_def)
  show ?thesis
    by (simp add: EditJob_visit_present [OF _ f] EditJob_useEffect_present [OF _ f] s g)
qed

subsection \<open>Claim C2\<close>

text \<open>
  Claim C2, as amended. The edit-job page validates nothing. For a job id that is present
  (and not empty) and every control \<open>n\<close> and value \<open>v\<close>, the empty string and a status
  outside the four known ones included, the visit that makes the change and submits
  succeeds: it alerts \<^verbatim>\<open>Job updated! (Simulated save)\<close>, navigates to \<^verbatim>\<open>/jobs\<close>, logs
  the job with the field set to \<open>v\<close> and no error, and holds that job. The job of the
  array keeps its name: a later lookup finds \<^verbatim>\<open>jobName\<close> as it was.
\<close>

theorem edit_job_accepts_every_value:
  assumes "i \<noteq> []" and "find (\<lambda>j. job_id j = i) store = Some j"
  shows "alerts (EditJob_visit store i [(n, v)]) = [''Job updated! (Simulated save)''] \<and>
         pushed (EditJob_visit store i [(n, v)]) = [''/jobs''] \<and>
         console (EditJob_visit store i [(n, v)]) =
           [ConsoleLog ''Saving changes for job:'' (Some (assignJob n v j))] \<and>
         map_option (readJob n) (job (EditJob_visit store i [(n, v)])) = Some v \<and>
         map_option jobName (job (EditJob_useEffect store i EditJob_init)) = Some (jobName j)"
  by (simp add: EditJob_visit_present [OF assms] EditJob_useEffect_present [OF assms]
      readJob_assignJob)

theorem edit_job_accepts_every_value_witness:
  "''2'' \<noteq> [] \<and> ''Bogus'' \<notin> fst ` set statusColors \<and>
   alerts (EditJob_visit allJobs ''2'' [(StatusInput, ''Bogus'')]) =
     [''Job updated! (Simulated save)''] \<and>
   map_option status (job (EditJob_visit allJobs ''2'' [(StatusInput, ''Bogus'')])) =
     Some ''Bogus'' \<and>
   map_option jobName (job (EditJob_useEffect allJobs ''2'' EditJob_init)) =
     Some ''Sage Thrasher''"
proof -
  have a: "''2'' \<noteq> []" by simp
  have f: "find (\<lambda>j. job_id j = ''2'') allJobs =
      Some \<lparr>job_id = ''2'', jobName = ''Sage Thrasher'', clientName = ''X'',
             status = ''Scheduled'', gateCode = '''', job_notes = '''',
             tasks = [''Demo'', ''Steel'', ''Plumbing'']\<rparr>"
    by (simp add: allJobs_def)
  have b: "''Bogus'' \<notin> fst ` set statusColors"
    by (simp add: statusColors_def)
  from edit_job_accepts_every_value [OF a f, of StatusInput "''Bogus''"] b
  show ?thesis
    by simp
qed

text \<open>
  Claim C2 as stated fails: on job \<open>''1''\<close>, emptying the job name, emptying the
  client name, and setting the status to \<open>''Paused''\<close>, which is not a key of
  \<open>statusColors\<close>, are each accepted and reported as a successful update.
\<close>

theorem empty_jobName_accepted_counterexample:
  "alerts (EditJob_visit allJobs ''1'' [(JobNameInput, '''')]) =
     [''Job updated! (Simulated save)''] \<and>
   pushed (EditJob_visit allJobs ''1'' [(JobNameInput, '''')]) = [''/jobs''] \<and>
   map_option jobName (job (EditJob_visit allJobs ''1'' [(JobNameInput, '''')])) = Some '''' \<and>
   map_option clientName (job (EditJob_visit allJobs ''1'' [(ClientNameInput, '''')])) = Some '''' \<and>
   alerts (EditJob_visit allJobs ''1'' [(ClientNameInput, '''')]) =
     [''Job updated! (Simulated save)''] \<and>
   map_option status (job (EditJob_visit allJobs ''1'' [(StatusInput, ''Paused'')])) =
     Some ''Paused'' \<and>
   alerts (EditJob_visit allJobs ''1'' [(StatusInput, ''Paused'')]) =
     [''Job updated! (Simulated save)''] \<and>
   ''Paused'' \<notin> fst ` set statusColors"
proof -
  have f: "find (\<lambda>j. job_id j = ''1'') allJobs = Some (allJobs ! 0)"
    by (simp add: allJobs_def)
  show ?thesis
    by (simp add: EditJob_visit_present [OF _ f] statusColors_def)
qed

subsection \<open>Claim C3\<close>

text \<open>
  Claim C3, as amended. No change is ever rejected, alone or with others. For a job and a
  task that are present (ids not empty), a visit of the edit-job page with changes to
  distinct controls ends with a job in which every changed field has the value given,
  every other field, the id and the tasks are as in the array, and the update is reported
  as successful, whatever the values; a visit of the edit-task page ends with the task of
  the array with every change applied in order (for a change of title and of
  \<^verbatim>\<open>completed\<close>: both fields set), reported as successful too. What the pages apply the
  changes to is their own copy: the arrays are not written by any visit.
\<close>

theorem patch_applied_in_full:
  assumes "jobId \<noteq> []" and "taskId \<noteq> []"
    and "find (\<lambda>j. job_id j = jobId) store = Some j"
    and "find (\<lambda>j. job_id j = jobId) tstore = Some pj"
    and "find (\<lambda>t. task_id t = taskId) (tasks pj) = Some t"
    and "distinct (map fst changes)"
  shows "\<exists>j'. job (EditJob_visit store jobId changes) = Some j' \<and>
           (\<forall>(n, v) \<in> set changes. readJob n j' = v) \<and>
           (\<forall>n. n \<notin> fst ` set changes \<longrightarrow> readJob n j' = readJob n j) \<and>
           job_id j' = job_id j \<and> tasks j' = tasks j \<and>
           alerts (EditJob_visit store jobId changes) = [''Job updated! (Simulated save)''] \<and>
           task (EditTask_visit tstore jobId taskId tchanges) =
             Some (foldl (\<lambda>t e. assignTask e t) t tchanges) \<and>
           task (EditTask_visit tstore jobId taskId [TitleInput v, CompletedInput c]) =
             Some (t\<lparr>title := v, completed := c\<rparr>) \<and>
           alerts (EditTask_visit tstore jobId taskId tchanges) =
             [''Task updated! (Simulated save)'']"
proof -
  let ?j' = "foldl (\<lambda>j (n, v). assignJob n v j) j changes"
  have 1: "\<forall>(n, v) \<in> set changes. readJob n ?j' = v"
    by (auto simp: readJob_foldl map_of_rev_changes(1) [OF assms(6)])
  have 2: "\<forall>n. n \<notin> fst ` set changes \<longrightarrow> readJob n ?j' = readJob n j"
    by (simp add: readJob_foldl map_of_rev_changes(2) [OF assms(6)])
  show ?thesis
    using 1 2
    by (simp add: EditJob_visit_present [OF assms(1,3)]
        EditTask_visit_present [OF assms(1,2,4,5)] foldl_assignJob_frame)
qed

theorem patch_applied_in_full_witness:
  "''1'' \<noteq> [] \<and> ''1-1'' \<noteq> [] \<and>
   distinct (map fst [(JobNameInput, ''''), (GateCodeInput, ''0000'')]) \<and>
   map_option jobName (job (EditJob_visit allJobs ''1''
      [(JobNameInput, ''''), (GateCodeInput, ''0000'')])) = Some '''' \<and>
   map_option gateCode (job (EditJob_visit allJobs ''1''
      [(JobNameInput, ''''), (GateCodeInput, ''0000'')])) = Some ''0000'' \<and>
   map_option clientName (job (EditJob_visit allJobs ''1''
      [(JobNameInput, ''''), (GateCodeInput, ''0000'')])) = Some ''Cindy McKinny'' \<and>
   map_option title (task (EditTask_visit initialJobs ''1'' ''1-1''
      [TitleInput '''', CompletedInput False])) = Some '''' \<and>
   map_option completed (task (EditTask_visit initialJobs ''1'' ''1-1''
      [TitleInput '''', CompletedInput False])) = Some False"
proof -
  have a: "''1'' \<noteq> []" and b: "''1-1'' \<noteq> []" by simp_all
  have f: "find (\<lambda>j. job_id j = ''1'') allJobs = Some (allJobs ! 0)"
    by (simp add: allJobs_def)
  have g: "find (\<lambda>j. job_id j = ''1'') initialJobs = Some (initialJobs ! 0)"
    by (simp add: initialJobs_def)
  have h: "find (\<lambda>t. task_id t = ''1-1'') (tasks (initialJobs ! 0)) =
             Some (tasks (initialJobs ! 0) ! 0)"
    by (simp add: initialJobs_def)
  have d: "distinct (map fst [(JobNameInput, ''''), (GateCodeInput, ''0000'')])" by simp
  have c: "clientName (allJobs ! 0) = ''Cindy McKinny''" by (simp add: allJobs_def)
  from patch_applied_in_full [OF a b f g h d, of "[TitleInput '''', CompletedInput False]" "''''" False]
  obtain j' where j': "job (EditJob_visit allJobs ''1''
        [(JobNameInput, ''''), (GateCodeInput, ''0000'')]) = Some j'"
    and r: "\<forall>(n, v) \<in> set [(JobNameInput, ''''), (GateCodeInput, ''0000'')]. readJob n j' = v"
    and k: "\<forall>n. n \<notin> fst ` set [(JobNameInput, ''''), (GateCodeInput, ''0000'')] \<longrightarrow>
              readJob n j' = readJob n (allJobs ! 0)"
    and t: "task (EditTask_visit initialJobs ''1'' ''1-1'' [TitleInput '''', CompletedInput False]) =
             Some ((tasks (initialJobs ! 0) ! 0)\<lparr>title := '''', completed := False\<rparr>)"
    by blast
  have "jobName j' = ''''" "gateCode j' = ''0000''" using r by simp_all
  moreover have "clientName j' = ''Cindy McKinny''"
    using k [rule_format, of ClientNameInput] c by simp
  ultimately show ?thesis
    using j' t by simp
qed

text \<open>
  Claim C3 as stated fails: a patch of job \<open>''2''\<close> that empties the client name and
  sets the notes is applied in both fields and reported as successful, and so is a patch
  of task \<open>''2-1''\<close> that empties the title and sets the due date.
\<close>

theorem invalid_patch_applied_counterexample:
  "job (EditJob_visit allJobs ''2'' [(ClientNameInput, ''''), (NotesInput, ''call first'')]) =
     Some \<lparr>job_id = ''2'', jobName = ''Sage Thrasher'', clientName = '''',
           status = ''Scheduled'', gateCode = '''', job_notes = ''call first'',
           tasks = [''Demo'', ''Steel'', ''Plumbing'']\<rparr> \<and>
   alerts (EditJob_visit allJobs ''2'' [(ClientNameInput, ''''), (NotesInput, ''call first'')]) =
     [''Job updated! (Simulated save)''] \<and>
   task (EditTask_visit initialJobs ''2'' ''2-1'' [TitleInput '''', DueDateInput ''2025-08-01'']) =
     Some \<lparr>task_id = ''2-1'', title = '''', description = ''demo pre-existing pool'',
           completed = False, dueDate = ''2025-08-01'',
           task_notes = ''Check soil/ground conditions''\<rparr> \<and>
   alerts (EditTask_visit initialJobs ''2'' ''2-1'' [TitleInput '''', DueDateInput ''2025-08-01'']) =
     [''Task updated! (Simulated save)'']"
proof -
  have f: "find (\<lambda>j. job_id j = ''2'') allJobs =
      Some \<lparr>job_id = ''2'', jobName = ''Sage Thrasher'', clientName = ''X'',
             status = ''Scheduled'', gateCode = '''', job_notes = '''',
             tasks = [''Demo'', ''Steel'', ''Plumbing'']\<rparr>"
    by (simp add: allJobs_def)
  have g: "find (\<lambda>j. job_id j = ''2'') initialJobs = Some (last initialJobs)"
    by (simp add: initialJobs_def)
  have h: "find (\<lambda>t. task_id t = ''2-1'') (tasks (last initialJobs)) =
      Some \<lparr>task_id = ''2-1'', title = ''Demo'', description = ''demo pre-existing pool'',
             completed = False, dueDate = ''2025-06-20'',
             task_notes = ''Check soil/ground conditions''\<rparr>"
    by (simp add: initialJobs_def)
  show ?thesis
    by (simp add: EditJob_visit_present [OF _ f] EditTask_visit_present [OF _ _ g h])
qed

subsection \<open>Claim C4\<close>

text \<open>
  Claim C4. Toggling the completion of a task twice gives back the state of the task list
  page as it was, for every state, job and task id; in particular \<^verbatim>\<open>completed\<close> of the
  task is what it was.
\<close>

theorem double_toggle_identity:
  "handleTaskCompletionChange taskId (handleTaskCompletionChange taskId st) = st"
proof (cases "job st")
  case None
  then show ?thesis by (simp add: handleTaskCompletionChange_def)
next
  case (Some j)
  have "map ((\<lambda>t. if task_id t = taskId then t\<lparr>completed := \<not> completed t\<rparr> else t) \<circ>
             (\<lambda>t. if task_id t = taskId then t\<lparr>completed := \<not> completed t\<rparr> else t)) (tasks j)
        = tasks j"
    by (rule map_idI) simp
  with Some show ?thesis
    by (simp add: handleTaskCompletionChange_def)
qed

subsection \<open>Claim C5\<close>



subsection \<open>Claim C6\<close>

text \<open>
  Claim C6. A job id that is present is looked up to a job with that id. The edit-job
  page and the task list page find the job by \<^verbatim>\<open>find((j) => j.id === id)\<close> when the id
  from the route is not empty; for every array of jobs and every such id that occurs in
  it, the job the page stores and shows is a job of the array whose id is the id asked
  for.
\<close>

theorem lookup_returns_queried_id:
  assumes "i \<noteq> []"
  shows "(i \<in> job_id ` set store \<longrightarrow>
            (\<exists>j \<in> set store. job_id j = i \<and>
               job (EditJob_useEffect store i EditJob_init) = Some j \<and>
               EditJob_render (EditJob_useEffect store i EditJob_init) = Content j)) \<and>
         (i \<in> job_id ` set tstore \<longrightarrow>
            (\<exists>j \<in> set tstore. job_id j = i \<and>
               job (JobTasks_useEffect tstore i JobTasks_init) = Some j \<and>
               JobTasks_render (JobTasks_useEffect tstore i JobTasks_init) = Content j))"
proof (intro conjI impI)
  assume "i \<in> job_id ` set store"
  then obtain j where j: "find (\<lambda>j. job_id j = i) store = Some j"
    using find_present by blast
  with assms show "\<exists>j \<in> set store. job_id j = i \<and>
      job (EditJob_useEffect store i EditJob_init) = Some j \<and>
      EditJob_render (EditJob_useEffect store i EditJob_init) = Content j"
    using find_job_id [OF j]
    by (simp add: EditJob_useEffect_def EditJob_init_def EditJob_render_def)
next
  assume "i \<in> job_id ` set tstore"
  then obtain j where j: "find (\<lambda>j. job_id j = i) tstore = Some j"
    using find_present by blast
  with assms show "\<exists>j \<in> set tstore. job_id j = i \<and>
      job (JobTasks_useEffect tstore i JobTasks_init) = Some j \<and>
      JobTasks_render (JobTasks_useEffect tstore i JobTasks_init) = Content j"
    using find_job_id [OF j]
    by (simp add: JobTasks_useEffect_def JobTasks_init_def JobTasks_render_def)
qed

theorem lookup_returns_queried_id_witness:
  "''1'' \<noteq> [] \<and> ''1'' \<in> job_id ` set allJobs \<and> ''1'' \<in> job_id ` set initialJobs \<and>
   map_option job_id (job (EditJob_useEffect allJobs ''1'' EditJob_init)) = Some ''1'' \<and>
   map_option job_id (job (JobTasks_useEffect initialJobs ''1'' JobTasks_init)) = Some ''1''"
proof -
  have a: "''1'' \<in> job_id ` set allJobs" by (simp add: allJobs_def)
  have b: "''1'' \<in> job_id ` set initialJobs" by (simp add: initialJobs_def)
  have n: "''1'' \<noteq> []" by simp
  from lookup_returns_queried_id [OF n, of allJobs initialJobs] a b
  show ?thesis by auto
qed

subsection \<open>Claim C7\<close>

text \<open>
  Claim C7. For an id that no job of the array has, looking the job up and editing it
  both end in the page's not-found outcome: the page holds no job, shows its not-found
  message and (for an id that is not empty) has navigated to \<^verbatim>\<open>/404\<close>. No change can be
  applied: the change handler keeps the state without a job, and a visit with any list of
  changes stops after the effect, before any submit (nothing is alerted).
\<close>

theorem absent_job_not_found:
  assumes "i \<notin> job_id ` set store"
  shows "job (EditJob_useEffect store i EditJob_init) = None \<and>
         EditJob_render (EditJob_useEffect store i EditJob_init) =
           Message ''Job not found. Please check the URL.'' \<and>
         pushed (EditJob_useEffect store i EditJob_init) = (if i = [] then [] else [''/404'']) \<and>
         job (EditJob_handleChange n v (EditJob_useEffect store i EditJob_init)) = None \<and>
         EditJob_visit store i changes = EditJob_useEffect store i EditJob_init \<and>
         alerts (EditJob_visit store i changes) = []"
  by (simp add: EditJob_useEffect_absent [OF assms] EditJob_render_def EditJob_visit_def
      EditJob_handleChange_def)

theorem absent_job_not_found_witness:
  "''4'' \<notin> job_id ` set allJobs \<and>
   EditJob_render (EditJob_useEffect allJobs ''4'' EditJob_init) =
     Message ''Job not found. Please check the URL.'' \<and>
   pushed (EditJob_visit allJobs ''4'' [(StatusInput, ''Completed'')]) = [''/404'']"
proof -
  have a: "''4'' \<notin> job_id ` set allJobs" by (simp add: allJobs_def)
  from absent_job_not_found [OF a, of JobNameInput "''x''" "[(StatusInput, ''Completed'')]"] a
  show ?thesis by simp
qed

subsection \<open>Claim C8\<close>

text \<open>
  Claim C8. The edit-task page ends in its not-found outcome exactly when no job has the
  job id, or the job with that id has no task with the task id. This is stated for every
  array of jobs whose job ids are distinct and in which no job id and no task id is the
  empty string (the page does not look up an empty id), and for every pair of ids. In
  the array as shipped, job \<open>''1''\<close> exists and has no task \<open>''9-9''\<close>: the page shows
  the not-found message.
\<close>

theorem getTask_not_found_iff:
  assumes "distinct (map job_id store)"
    and "\<forall>j \<in> set store. job_id j \<noteq> [] \<and> (\<forall>t \<in> set (tasks j). task_id t \<noteq> [])"
  shows "(EditTask_render (EditTask_useEffect store jobId taskId EditTask_init) =
            Message ''Task not found. Please check the URL.'') =
         (jobId \<notin> job_id ` set store \<or>
          (\<exists>j \<in> set store. job_id j = jobId \<and> taskId \<notin> task_id ` set (tasks j)))"
proof (cases "find (\<lambda>j. job_id j = jobId) store")
  case None
  then have "jobId \<notin> job_id ` set store"
    by (auto simp: find_None_iff)
  with None show ?thesis
    by (simp add: EditTask_useEffect_cases EditTask_render_def)
next
  case (Some j)
  then have j: "job_id j = jobId" "j \<in> set store"
    using find_job_id by blast+
  have uniq: "j' = j" if "j' \<in> set store" "job_id j' = jobId" for j'
    using find_distinct_job [OF assms(1) that(1)] that(2) Some by simp
  have ne: "jobId \<noteq> []" using assms(2) j by blast
  show ?thesis
  proof (cases "find (\<lambda>t. task_id t = taskId) (tasks j)")
    case None
    then have "taskId \<notin> task_id ` set (tasks j)"
      by (simp add: find_task_None)
    with None Some j show ?thesis
      by (auto simp: EditTask_useEffect_cases EditTask_render_def)
  next
    case (Some t)
    then have t: "task_id t = taskId" "t \<in> set (tasks j)"
      using find_task_id by blast+
    then have tne: "taskId \<noteq> []" using assms(2) j by blast
    have "\<not> (\<exists>j' \<in> set store. job_id j' = jobId \<and> taskId \<notin> task_id ` set (tasks j'))"
      using uniq t by blast
    moreover have "jobId \<in> job_id ` set store" using j by blast
    ultimately show ?thesis
      using Some \<open>find (\<lambda>j. job_id j = jobId) store = Some j\<close> ne tne
      by (simp add: EditTask_useEffect_cases EditTask_render_def)
  qed
qed

theorem getTask_not_found_iff_witness:
  "distinct (map job_id initialJobs) \<and>
   [] \<notin> job_id ` set initialJobs \<and>
   [] \<notin> task_id ` (\<Union>j \<in> set initialJobs. set (tasks j)) \<and>
   ''1'' \<in> job_id ` set initialJobs \<and>
   EditTask_render (EditTask_useEffect initialJobs ''1'' ''9-9'' EditTask_init) =
     Message ''Task not found. Please check the URL.''"
proof -
  have d: "distinct (map job_id initialJobs)" by (simp add: initialJobs_def)
  have n: "\<forall>j \<in> set initialJobs. job_id j \<noteq> [] \<and> (\<forall>t \<in> set (tasks j). task_id t \<noteq> [])"
    by (simp add: initialJobs_def)
  have p: "''1'' \<in> job_id ` set initialJobs" by (simp add: initialJobs_def)
  have a: "\<exists>j \<in> set initialJobs. job_id j = ''1'' \<and> ''9-9'' \<notin> task_id ` set (tasks j)"
    by (simp add: initialJobs_def)
  have e: "[] \<notin> job_id ` set initialJobs"
    "[] \<notin> task_id ` (\<Union>j \<in> set initialJobs. set (tasks j))"
    by (simp_all add: initialJobs_def)
  from getTask_not_found_iff [OF d n, of "''1''" "''9-9''"] a d e p
  show ?thesis by blast
qed

subsection \<open>Claim C9\<close>

text \<open>
  Claim C9. Toggling a task id on the task list page, when the page holds a job, changes
  nothing but \<^verbatim>\<open>completed\<close> of the tasks with that id: the page still holds a job with
  the same id, name, client, status, gate code and notes, with as many tasks in the same
  order, each with the id, title, description, due date and notes it had, and with
  \<^verbatim>\<open>completed\<close> negated where the id is the one toggled and as it was elsewhere; the
  rest of the page state is as it was. On job \<open>''1''\<close> as shipped, toggling \<open>''1-2''\<close>
  leaves tasks \<open>''1-1''\<close> and \<open>''1-2''\<close> both completed (and the third task,
  \<open>''1-3''\<close>, not completed).
\<close>

theorem toggle_changes_only_completed:
  assumes "job st = Some j"
  shows "\<exists>j'. job (handleTaskCompletionChange taskId st) = Some j' \<and>
           job_id j' = job_id j \<and> jobName j' = jobName j \<and> clientName j' = clientName j \<and>
           status j' = status j \<and> gateCode j' = gateCode j \<and> job_notes j' = job_notes j \<and>
           length (tasks j') = length (tasks j) \<and>
           (\<forall>k < length (tasks j).
              task_id (tasks j' ! k) = task_id (tasks j ! k) \<and>
              title (tasks j' ! k) = title (tasks j ! k) \<and>
              description (tasks j' ! k) = description (tasks j ! k) \<and>
              dueDate (tasks j' ! k) = dueDate (tasks j ! k) \<and>
              task_notes (tasks j' ! k) = task_notes (tasks j ! k) \<and>
              completed (tasks j' ! k) =
                (if task_id (tasks j ! k) = taskId then \<not> completed (tasks j ! k)
                 else completed (tasks j ! k))) \<and>
           loading (handleTaskCompletionChange taskId st) = loading st \<and>
           pushed (handleTaskCompletionChange taskId st) = pushed st \<and>
           console (handleTaskCompletionChange taskId st) = console st \<and>
           alerts (handleTaskCompletionChange taskId st) = alerts st"
  using assms by (simp add: handleTaskCompletionChange_def)

theorem toggle_changes_only_completed_witness:
  "job (JobTasks_useEffect initialJobs ''1'' JobTasks_init) = Some (hd initialJobs) \<and>
   (\<exists>j'. job (handleTaskCompletionChange ''1-2'' (JobTasks_useEffect initialJobs ''1'' JobTasks_init))
            = Some j' \<and>
          length (tasks j') = 3 \<and>
          task_id (tasks j' ! 0) = ''1-1'' \<and> completed (tasks j' ! 0) \<and>
          task_id (tasks j' ! 1) = ''1-2'' \<and> completed (tasks j' ! 1) \<and>
          task_id (tasks j' ! 2) = ''1-3'' \<and> \<not> completed (tasks j' ! 2))"
proof -
  have a: "job (JobTasks_useEffect initialJobs ''1'' JobTasks_init) = Some (hd initialJobs)"
    by (simp add: JobTasks_useEffect_def JobTasks_init_def initialJobs_def)
  from toggle_changes_only_completed [OF a, of "''1-2''"]
  obtain j' where j': "job (handleTaskCompletionChange ''1-2''
        (JobTasks_useEffect initialJobs ''1'' JobTasks_init)) = Some j'"
    and len: "length (tasks j') = length (tasks (hd initialJobs))"
    and el: "\<And>k. k < length (tasks (hd initialJobs)) \<Longrightarrow>
              task_id (tasks j' ! k) = task_id (tasks (hd initialJobs) ! k) \<and>
              completed (tasks j' ! k) =
                (if task_id (tasks (hd initialJobs) ! k) = ''1-2''
                 then \<not> completed (tasks (hd initialJobs) ! k)
                 else completed (tasks (hd initialJobs) ! k))"
    by blast
  have l3: "length (tasks j') = 3" using len by (simp add: initialJobs_def)
  have t0: "task_id (tasks j' ! 0) = ''1-1'' \<and> completed (tasks j' ! 0)"
    using el [of 0] by (simp add: initialJobs_def)
  have t1: "task_id (tasks j' ! 1) = ''1-2'' \<and> completed (tasks j' ! 1)"
    using el [of 1] by (simp add: initialJobs_def)
  have t2: "task_id (tasks j' ! 2) = ''1-3'' \<and> \<not> completed (tasks j' ! 2)"
    using el [of 2] by (simp add: initialJobs_def)
  from a j' l3 t0 t1 t2 show ?thesis by blast
qed

subsection \<open>Claim C10\<close>

text \<open>
  Claim C10. The arrays of the pages disagree on job \<open>''3''\<close>. The jobs list has it and
  the edit-job page finds it; the task list page, entered for \<open>''3''\<close>, logs an error,
  navigates to \<^verbatim>\<open>/404\<close> and shows its not-found message, and the edit-task page
  ends without a task and shows its not-found message for every task id \<open>t\<close>.
\<close>

theorem job3_stores_disagree:
  "''3'' \<in> job_id ` set jobs \<and>
   map_option job_id (job (EditJob_useEffect allJobs ''3'' EditJob_init)) = Some ''3'' \<and>
   pushed (EditJob_useEffect allJobs ''3'' EditJob_init) = [] \<and>
   JobTasks_render (JobTasks_useEffect initialJobs ''3'' JobTasks_init) = Message ''Job not found.'' \<and>
   pushed (JobTasks_useEffect initialJobs ''3'' JobTasks_init) = [''/404''] \<and>
   EditTask_render (EditTask_useEffect initialJobs ''3'' t EditTask_init) =
     Message ''Task not found. Please check the URL.'' \<and>
   task (EditTask_useEffect initialJobs ''3'' t EditTask_init) = None \<and>
   pushed (EditTask_useEffect initialJobs ''3'' t EditTask_init) = (if t = [] then [] else [''/404''])"
  by (simp add: jobs_def allJobs_def initialJobs_def EditJob_useEffect_def EditJob_init_def
      JobTasks_useEffect_def JobTasks_init_def JobTasks_render_def
      EditTask_useEffect_def EditTask_init_def EditTask_render_def)

end
